theory Spec2Isabelle
  imports Complex_Main
begin

section \<open>The persisted document\<close>

text \<open>
  The records of options come first (\<open>item_options\<close> of \<open>shop.addItem\<close>, the
  guild settings and options the RewardManager reads), so that a field name written
  without its record is a field of the document.

  The storage file holds one JSON document: guild identifier to guild record, a guild
  record holding its members and, under the key \<open>shop\<close>, the catalog.  A document
  here is what \<open>JSON.parse\<close> gives for the file, so a number in it is a double, as
  are the arguments of the operations.  The balances,
  prices, amounts and timestamps of the data model are integers: a number of the program
  is modelled by its value where that value is an integer, and fractions are not values
  of the model.  A nullable JSON number is an \<open>int option\<close>; the same type carries
  the result of a computation, with \<open>None\<close> for \<open>NaN\<close> and for an infinity,
  which \<open>JSON.stringify\<close> writes as \<open>null\<close>.  A member record carries all of
  its seven keys, as every write of the program stores them.  Member identifiers are kept
  apart from the reserved key \<open>shop\<close> by the guild record's two fields.
\<close>

record item_options =
  itemName :: string
  price :: int
  message :: "string option"
  description :: "string option"
  maxAmount :: "int option"
  role :: "string option"

datatype reward_spec = RNumber int | RArray "int list"

record reward_settings =
  dailyCooldown :: "int option"
  workCooldown :: "int option"
  weeklyCooldown :: "int option"
  dailyAmount :: "reward_spec option"
  workAmount :: "reward_spec option"
  weeklyAmount :: "reward_spec option"

record reward_options =
  dailyCooldown :: int
  workCooldown :: int
  weeklyCooldown :: int
  dailyAmount :: reward_spec
  workAmount :: reward_spec
  weeklyAmount :: reward_spec

record item_base =
  id :: int
  itemName :: string
  price :: int
  role :: "string option"
  maxAmount :: "int option"
  date :: string

record inventory_item = item_base +
  message :: string

record shop_item = inventory_item +
  description :: string

record history_item = item_base +
  memberID :: string
  guildID :: string

record options =
  dailyCooldown :: int
  workCooldown :: int
  weeklyCooldown :: int
  dailyAmount :: int
  workAmount :: reward_spec
  weeklyAmount :: int

record member =
  dailyCooldown :: "int option"
  workCooldown :: "int option"
  weeklyCooldown :: "int option"
  money :: "int option"
  bank :: "int option"
  inventory :: "inventory_item list"
  history :: "history_item list"

record guild =
  members :: "string \<rightharpoonup> member"
  shop :: "shop_item list option"

type_synonym document = "string \<rightharpoonup> guild"

text \<open>
  The Economy object: its \<open>ready\<close> flag and its options after \<open>init\<close>.  Two
  functions of the host platform are parameters: \<open>ms\<close>, the package that formats a
  duration, and \<open>ToNumber\<close>, the conversion of a string to a number that the loose
  equality \<open>==\<close> applies (\<open>None\<close> when the string does not denote an integer).
\<close>

record economy =
  ready :: bool
  options :: options
  ms :: "int \<Rightarrow> string"
  ToNumber :: "string \<Rightarrow> int option"

datatype error = NotReady | NotANumber | NeedClient | TypeError

section \<open>Sums and differences of numbers\<close>

text \<open>
  The program's numbers are IEEE doubles, and \<open>+\<close> and \<open>-\<close> give the exact
  result rounded to the nearest double, ties to the even significand.  For an integer
  result \<open>x\<close>: up to \<open>2^53 = 9007199254740992\<close> in magnitude it is a double; beyond,
  the doubles are the multiples of \<open>ulp\<close>, the power of two that leaves 53
  significant bits; from \<open>2^1024\<close> on the rounded result is an infinity.
\<close>

function ulp :: "nat \<Rightarrow> nat" where
  "ulp n = (if n < 9007199254740992 then 1 else 2 * ulp (n div 2))"
  by pat_completeness auto
termination
  by (relation "measure (\<lambda>n. n)") auto

declare ulp.simps [simp del]

definition nearest_even :: "nat \<Rightarrow> nat \<Rightarrow> nat" where
  \<comment> \<open>the multiple of \<open>s\<close> nearest to \<open>n\<close>, a tie going to the even multiple\<close>
  "nearest_even n s =
     (let q = n div s; r = n mod s
      in if 2 * r < s \<or> (2 * r = s \<and> even q) then q * s else (q + 1) * s)"

definition to_double :: "int \<Rightarrow> int option" where
  \<comment> \<open>the double an exact integer result is rounded to; \<open>None\<close> is
      \<open>Infinity\<close> or \<open>-Infinity\<close>\<close>
  "to_double x =
     (let y = nearest_even (nat \<bar>x\<bar>) (ulp (nat \<bar>x\<bar>))
      in if y \<ge> 2 ^ 1024 then None else Some (sgn x * int y))"

section \<open>Reading a member record\<close>

definition member_of :: "document \<Rightarrow> string \<Rightarrow> string \<Rightarrow> member option" where
  \<comment> \<open>\<open>obj[guildID]?.[memberID]\<close>\<close>
  "member_of obj g m = (case obj g of None \<Rightarrow> None | Some gd \<Rightarrow> members gd m)"

definition or_zero :: "int option \<Rightarrow> int" where
  \<comment> \<open>\<open>x || 0\<close>\<close>
  "or_zero x = (case x of None \<Rightarrow> 0 | Some n \<Rightarrow> n)"

definition or_null :: "int option \<Rightarrow> int option" where
  \<comment> \<open>\<open>x || null\<close>: a stored \<open>0\<close> is falsy\<close>
  "or_null x = (case x of None \<Rightarrow> None | Some n \<Rightarrow> if n = 0 then None else Some n)"

definition money_of :: "document \<Rightarrow> string \<Rightarrow> string \<Rightarrow> int" where
  "money_of obj g m = (case member_of obj g m of None \<Rightarrow> 0 | Some r \<Rightarrow> or_zero (money r))"

definition bank_of :: "document \<Rightarrow> string \<Rightarrow> string \<Rightarrow> int" where
  "bank_of obj g m = (case member_of obj g m of None \<Rightarrow> 0 | Some r \<Rightarrow> or_zero (bank r))"

definition dailyCooldown_of :: "document \<Rightarrow> string \<Rightarrow> string \<Rightarrow> int option" where
  "dailyCooldown_of obj g m =
     (case member_of obj g m of None \<Rightarrow> None | Some r \<Rightarrow> or_null (member.dailyCooldown r))"

definition workCooldown_of :: "document \<Rightarrow> string \<Rightarrow> string \<Rightarrow> int option" where
  "workCooldown_of obj g m =
     (case member_of obj g m of None \<Rightarrow> None | Some r \<Rightarrow> or_null (member.workCooldown r))"

definition weeklyCooldown_of :: "document \<Rightarrow> string \<Rightarrow> string \<Rightarrow> int option" where
  "weeklyCooldown_of obj g m =
     (case member_of obj g m of None \<Rightarrow> None | Some r \<Rightarrow> or_null (member.weeklyCooldown r))"

definition inventory_of :: "document \<Rightarrow> string \<Rightarrow> string \<Rightarrow> inventory_item list" where
  "inventory_of obj g m = (case member_of obj g m of None \<Rightarrow> [] | Some r \<Rightarrow> inventory r)"

definition history_of :: "document \<Rightarrow> string \<Rightarrow> string \<Rightarrow> history_item list" where
  "history_of obj g m = (case member_of obj g m of None \<Rightarrow> [] | Some r \<Rightarrow> history r)"

text \<open>The public readers; each refuses to work before the module is ready.\<close>

definition fetch :: "economy \<Rightarrow> string \<Rightarrow> string \<Rightarrow> document \<Rightarrow> error + int" where
  "fetch e m g doc = (if \<not> ready e then Inl NotReady else Inr (money_of doc g m))"

definition bankFetch :: "economy \<Rightarrow> string \<Rightarrow> string \<Rightarrow> document \<Rightarrow> error + int" where
  "bankFetch e m g doc = (if \<not> ready e then Inl NotReady else Inr (bank_of doc g m))"

definition getDailyCooldown ::
  "economy \<Rightarrow> string \<Rightarrow> string \<Rightarrow> document \<Rightarrow> error + int option" where
  "getDailyCooldown e m g doc =
     (if \<not> ready e then Inl NotReady else Inr (dailyCooldown_of doc g m))"

definition getWorkCooldown ::
  "economy \<Rightarrow> string \<Rightarrow> string \<Rightarrow> document \<Rightarrow> error + int option" where
  "getWorkCooldown e m g doc =
     (if \<not> ready e then Inl NotReady else Inr (workCooldown_of doc g m))"

definition getWeeklyCooldown ::
  "economy \<Rightarrow> string \<Rightarrow> string \<Rightarrow> document \<Rightarrow> error + int option" where
  "getWeeklyCooldown e m g doc =
     (if \<not> ready e then Inl NotReady else Inr (weeklyCooldown_of doc g m))"

definition shop_inventory ::
  "economy \<Rightarrow> string \<Rightarrow> string \<Rightarrow> document \<Rightarrow> error + inventory_item list" where
  "shop_inventory e m g doc =
     (if \<not> ready e then Inl NotReady else Inr (inventory_of doc g m))"

definition shop_history ::
  "economy \<Rightarrow> string \<Rightarrow> string \<Rightarrow> document \<Rightarrow> error + history_item list" where
  "shop_history e m g doc =
     (if \<not> ready e then Inl NotReady else Inr (history_of doc g m))"

section \<open>Writing a member record\<close>

definition ensure_guild :: "document \<Rightarrow> string \<Rightarrow> document" where
  \<comment> \<open>\<open>if (!obj[guildID]) obj[guildID] = {}\<close>\<close>
  "ensure_guild obj g =
     (case obj g of None \<Rightarrow> obj(g \<mapsto> \<lparr>members = Map.empty, shop = None\<rparr>) | Some _ \<Rightarrow> obj)"

definition assign_member :: "document \<Rightarrow> string \<Rightarrow> string \<Rightarrow> member \<Rightarrow> document option" where
  \<comment> \<open>\<open>obj[guildID][memberID] = rec\<close>; \<open>None\<close> is the \<open>TypeError\<close> of assigning a
      property of \<open>undefined\<close>\<close>
  "assign_member obj g m r =
     (case obj g of None \<Rightarrow> None
      | Some gd \<Rightarrow> Some (obj(g \<mapsto> gd\<lparr>members := (members gd)(m \<mapsto> r)\<rparr>)))"

definition persist ::
  "'a \<Rightarrow> document \<Rightarrow> document option \<Rightarrow> (error + 'a) \<times> document" where
  \<comment> \<open>\<open>writeFileSync\<close> of the assigned object and the return value, or the
      \<open>TypeError\<close> with the file as it was\<close>
  "persist v doc w = (case w of None \<Rightarrow> (Inl TypeError, doc) | Some d \<Rightarrow> (Inr v, d))"

section \<open>Balance ledger\<close>

text \<open>
  Every operation reads the file several times before its single write; nothing writes
  in between, so each read sees the document the operation was called on.  The
  \<open>amount\<close> argument is \<open>Number(amount)\<close>, an integer, or \<open>None\<close> when
  \<open>isNaN(amount)\<close>.  \<open>add\<close> and \<open>subtract\<close> store the rounded sum and
  difference, \<open>null\<close> when it is not finite.  The nested
  readers are called after the ready check has passed.  Notifications to the host's
  listeners leave the document and the return value alone and are not part of the model.
\<close>

definition set_money ::
  "economy \<Rightarrow> int option \<Rightarrow> string \<Rightarrow> string \<Rightarrow> document \<Rightarrow> (error + int) \<times> document" where
  "set_money e amount m g doc =
     (if \<not> ready e then (Inl NotReady, doc)
      else case amount of None \<Rightarrow> (Inl NotANumber, doc)
      | Some a \<Rightarrow>
          persist a doc (assign_member (ensure_guild doc g) g m
            \<lparr>dailyCooldown = dailyCooldown_of doc g m,
             workCooldown = workCooldown_of doc g m,
             weeklyCooldown = weeklyCooldown_of doc g m,
             money = Some a,
             bank = Some (bank_of doc g m),
             inventory = inventory_of doc g m,
             history = history_of doc g m\<rparr>))"

definition add ::
  "economy \<Rightarrow> int option \<Rightarrow> string \<Rightarrow> string \<Rightarrow> document \<Rightarrow> (error + int) \<times> document" where
  "add e amount m g doc =
     (if \<not> ready e then (Inl NotReady, doc)
      else case amount of None \<Rightarrow> (Inl NotANumber, doc)
      | Some a \<Rightarrow>
          persist a doc (assign_member (ensure_guild doc g) g m
            \<lparr>dailyCooldown = dailyCooldown_of doc g m,
             workCooldown = workCooldown_of doc g m,
             weeklyCooldown = weeklyCooldown_of doc g m,
             money = to_double (money_of doc g m + a),
             bank = Some (bank_of doc g m),
             inventory = inventory_of doc g m,
             history = history_of doc g m\<rparr>))"

definition subtract ::
  "economy \<Rightarrow> int option \<Rightarrow> string \<Rightarrow> string \<Rightarrow> document \<Rightarrow> (error + int) \<times> document" where
  "subtract e amount m g doc =
     (if \<not> ready e then (Inl NotReady, doc)
      else case amount of None \<Rightarrow> (Inl NotANumber, doc)
      | Some a \<Rightarrow>
          persist a doc (assign_member (ensure_guild doc g) g m
            \<lparr>dailyCooldown = dailyCooldown_of doc g m,
             workCooldown = workCooldown_of doc g m,
             weeklyCooldown = weeklyCooldown_of doc g m,
             money = to_double (money_of doc g m - a),
             bank = Some (bank_of doc g m),
             inventory = inventory_of doc g m,
             history = history_of doc g m\<rparr>))"

definition bankSet ::
  "economy \<Rightarrow> int option \<Rightarrow> string \<Rightarrow> string \<Rightarrow> document \<Rightarrow> (error + int) \<times> document" where
  "bankSet e amount m g doc =
     (if \<not> ready e then (Inl NotReady, doc)
      else case amount of None \<Rightarrow> (Inl NotANumber, doc)
      | Some a \<Rightarrow>
          persist a doc (assign_member (ensure_guild doc g) g m
            \<lparr>dailyCooldown = dailyCooldown_of doc g m,
             workCooldown = workCooldown_of doc g m,
             weeklyCooldown = weeklyCooldown_of doc g m,
             money = Some (money_of doc g m),
             bank = Some a,
             inventory = inventory_of doc g m,
             history = history_of doc g m\<rparr>))"

definition bankAdd ::
  "economy \<Rightarrow> int option \<Rightarrow> string \<Rightarrow> string \<Rightarrow> document \<Rightarrow> (error + int) \<times> document" where
  "bankAdd e amount m g doc =
     (if \<not> ready e then (Inl NotReady, doc)
      else case amount of None \<Rightarrow> (Inl NotANumber, doc)
      | Some a \<Rightarrow>
          persist a doc (assign_member (ensure_guild doc g) g m
            \<lparr>dailyCooldown = dailyCooldown_of doc g m,
             workCooldown = workCooldown_of doc g m,
             weeklyCooldown = weeklyCooldown_of doc g m,
             money = Some (money_of doc g m),
             bank = to_double (bank_of doc g m + a),
             inventory = inventory_of doc g m,
             history = history_of doc g m\<rparr>))"

definition bankSubtract ::
  "economy \<Rightarrow> int option \<Rightarrow> string \<Rightarrow> string \<Rightarrow> document \<Rightarrow> (error + int) \<times> document" where
  "bankSubtract e amount m g doc =
     (if \<not> ready e then (Inl NotReady, doc)
      else case amount of None \<Rightarrow> (Inl NotANumber, doc)
      | Some a \<Rightarrow>
          persist a doc (assign_member (ensure_guild doc g) g m
            \<lparr>dailyCooldown = dailyCooldown_of doc g m,
             workCooldown = workCooldown_of doc g m,
             weeklyCooldown = weeklyCooldown_of doc g m,
             money = Some (money_of doc g m),
             bank = to_double (bank_of doc g m - a),
             inventory = inventory_of doc g m,
             history = history_of doc g m\<rparr>))"

section \<open>Cooldown gate\<close>

text \<open>
  \<open>daily\<close>, \<open>work\<close> and \<open>weekly\<close> of the Economy class.  The clock is read
  up to twice in a call: \<open>t1\<close> and \<open>t2\<close> are the first and the second value of
  \<open>Date.now()\<close>.  With a timestamp on record the test \<open>cooldown - (Date.now() - cd) > 0\<close>
  takes the first reading, and the remaining time that is returned, or the new stamp of a
  due claim, takes the second; with no timestamp the test reads no clock and the stamp is
  the first reading.  \<open>r\<close> is the value of \<open>Math.random()\<close>, a real number with
  \<open>0 \<le> r < 1\<close>, and the reward drawn from it is computed in exact arithmetic.  A due
  claim stamps the member record, writes it, and then credits the reward through
  \<open>add\<close>, which reads the file again.
\<close>

datatype claim_result = Reward "int option" | Wait string

definition credit ::
  "economy \<Rightarrow> int option \<Rightarrow> string \<Rightarrow> string \<Rightarrow> document option \<Rightarrow> document
     \<Rightarrow> (error + claim_result) \<times> document" where
  \<comment> \<open>the tail of a due claim: the stamped record is written, then
      \<open>this.add(reward, ...)\<close> and \<open>return Number(reward)\<close>\<close>
  "credit e reward m g stamped doc =
     (case stamped of None \<Rightarrow> (Inl TypeError, doc)
      | Some doc1 \<Rightarrow>
          (case add e reward m g doc1 of
             (Inl err, d) \<Rightarrow> (Inl err, d)
           | (Inr _, d) \<Rightarrow> (Inr (Reward reward), d)))"

definition daily ::
  "economy \<Rightarrow> int \<Rightarrow> int \<Rightarrow> string \<Rightarrow> string \<Rightarrow> document
     \<Rightarrow> (error + claim_result) \<times> document" where
  "daily e t1 t2 m g doc =
     (if \<not> ready e then (Inl NotReady, doc)
      else
        let cooldown = options.dailyCooldown (options e);
            reward = dailyAmount (options e);
            claim = (\<lambda>stamp. credit e (Some reward) m g
              (assign_member (ensure_guild doc g) g m
                 \<lparr>dailyCooldown = Some stamp,
                  workCooldown = workCooldown_of doc g m,
                  weeklyCooldown = weeklyCooldown_of doc g m,
                  money = Some (money_of doc g m),
                  bank = Some (bank_of doc g m),
                  inventory = inventory_of doc g m,
                  history = history_of doc g m\<rparr>) doc)
        in case dailyCooldown_of doc g m of
             None \<Rightarrow> claim t1
           | Some cd \<Rightarrow>
               if cooldown - (t1 - cd) > 0
               then (Inr (Wait (ms e (cooldown - (t2 - cd)))), doc)
               else claim t2)"

definition work_reward :: "reward_spec \<Rightarrow> real \<Rightarrow> int option" where
  \<comment> \<open>\<open>Array.isArray(workAmount) ? Math.ceil(Math.random() * (Number(workAmount[0]) -
      Number(workAmount[1])) + Number(workAmount[1])) : workAmount\<close>; a missing element
      is \<open>undefined\<close> and the result \<open>NaN\<close>\<close>
  "work_reward w r =
     (case w of
        RNumber n \<Rightarrow> Some n
      | RArray xs \<Rightarrow>
          (case xs of
             a # b # _ \<Rightarrow> Some \<lceil>r * (of_int a - of_int b) + of_int b\<rceil>
           | _ \<Rightarrow> None))"

definition work ::
  "economy \<Rightarrow> int \<Rightarrow> int \<Rightarrow> real \<Rightarrow> string \<Rightarrow> string \<Rightarrow> document
     \<Rightarrow> (error + claim_result) \<times> document" where
  "work e t1 t2 r m g doc =
     (if \<not> ready e then (Inl NotReady, doc)
      else
        let cooldown = options.workCooldown (options e);
            reward = work_reward (workAmount (options e)) r;
            claim = (\<lambda>stamp. credit e reward m g
              (assign_member (ensure_guild doc g) g m
                 \<lparr>dailyCooldown = dailyCooldown_of doc g m,
                  workCooldown = Some stamp,
                  weeklyCooldown = weeklyCooldown_of doc g m,
                  money = Some (money_of doc g m),
                  bank = Some (bank_of doc g m),
                  inventory = inventory_of doc g m,
                  history = history_of doc g m\<rparr>) doc)
        in case workCooldown_of doc g m of
             None \<Rightarrow> claim t1
           | Some cd \<Rightarrow>
               if cooldown - (t1 - cd) > 0
               then (Inr (Wait (ms e (cooldown - (t2 - cd)))), doc)
               else claim t2)"

definition weekly ::
  "economy \<Rightarrow> int \<Rightarrow> int \<Rightarrow> string \<Rightarrow> string \<Rightarrow> document
     \<Rightarrow> (error + claim_result) \<times> document" where
  "weekly e t1 t2 m g doc =
     (if \<not> ready e then (Inl NotReady, doc)
      else
        let cooldown = options.weeklyCooldown (options e);
            claim = (\<lambda>stamp. credit e (Some (weeklyAmount (options e))) m g
              (assign_member (ensure_guild doc g) g m
                 \<lparr>dailyCooldown = dailyCooldown_of doc g m,
                  workCooldown = workCooldown_of doc g m,
                  weeklyCooldown = Some stamp,
                  money = Some (money_of doc g m),
                  bank = Some (bank_of doc g m),
                  inventory = inventory_of doc g m,
                  history = history_of doc g m\<rparr>) doc)
        in case weeklyCooldown_of doc g m of
             None \<Rightarrow> claim t1
           | Some cd \<Rightarrow>
               if cooldown - (t1 - cd) > 0
               then (Inr (Wait (ms e (cooldown - (t2 - cd)))), doc)
               else claim t2)"

section \<open>Shop engine\<close>

text \<open>
  An item is addressed by \<open>itemID\<close>, a number or a string, compared with the item's
  \<open>id\<close> and with its \<open>itemName\<close> by the loose equality \<open>==\<close>: two numbers
  or two strings are compared as they are, a string against a number through
  \<open>ToNumber\<close>.  \<open>find\<close> and \<open>findIndex\<close> take the first match.
\<close>

datatype item_key = KNumber int | KString string

definition eq_number :: "economy \<Rightarrow> int \<Rightarrow> item_key \<Rightarrow> bool" where
  \<comment> \<open>\<open>x.id == itemID\<close>\<close>
  "eq_number e n k = (case k of KNumber j \<Rightarrow> n = j | KString s \<Rightarrow> ToNumber e s = Some n)"

definition eq_string :: "economy \<Rightarrow> string \<Rightarrow> item_key \<Rightarrow> bool" where
  \<comment> \<open>\<open>x.itemName == itemID\<close>\<close>
  "eq_string e s k = (case k of KString t \<Rightarrow> s = t | KNumber j \<Rightarrow> ToNumber e s = Some j)"

definition matches :: "economy \<Rightarrow> item_key \<Rightarrow> 'a item_base_scheme \<Rightarrow> bool" where
  \<comment> \<open>\<open>x => x.id == itemID || x.itemName == itemID\<close>\<close>
  "matches e k x = (eq_number e (id x) k \<or> eq_string e (itemName x) k)"

fun findIndex :: "('a \<Rightarrow> bool) \<Rightarrow> 'a list \<Rightarrow> nat option" where
  "findIndex P [] = None"
| "findIndex P (x # xs) = (if P x then Some 0 else map_option Suc (findIndex P xs))"

definition shop_of :: "document \<Rightarrow> string \<Rightarrow> shop_item list" where
  \<comment> \<open>\<open>obj[guildID]?.shop || []\<close>\<close>
  "shop_of obj g =
     (case obj g of None \<Rightarrow> [] | Some gd \<Rightarrow> (case shop gd of None \<Rightarrow> [] | Some s \<Rightarrow> s))"

definition assign_shop :: "document \<Rightarrow> string \<Rightarrow> shop_item list \<Rightarrow> document option" where
  \<comment> \<open>\<open>obj[guildID]['shop'] = shop\<close>\<close>
  "assign_shop obj g s =
     (case obj g of None \<Rightarrow> None | Some gd \<Rightarrow> Some (obj(g \<mapsto> gd\<lparr>shop := Some s\<rparr>)))"

definition next_id :: "'a list \<Rightarrow> int" where
  \<comment> \<open>\<open>xs.length ? xs.length + 1 : 1\<close>\<close>
  "next_id xs = (if length xs \<noteq> 0 then int (length xs) + 1 else 1)"

definition string_or :: "string option \<Rightarrow> string \<Rightarrow> string" where
  \<comment> \<open>\<open>String(x || d)\<close>: an absent and an empty string are falsy\<close>
  "string_or x d = (case x of None \<Rightarrow> d | Some s \<Rightarrow> if s = [] then d else s)"

definition role_or_null :: "string option \<Rightarrow> string option" where
  \<comment> \<open>\<open>role || null\<close>\<close>
  "role_or_null x = (case x of None \<Rightarrow> None | Some s \<Rightarrow> if s = [] then None else Some s)"

definition shop_addItem ::
  "economy \<Rightarrow> string \<Rightarrow> item_options \<Rightarrow> string \<Rightarrow> document
     \<Rightarrow> (error + shop_item) \<times> document" where
  \<comment> \<open>\<open>today\<close> is \<open>new Date().toLocaleString(dateLocale)\<close>\<close>
  "shop_addItem e g opts today doc =
     (if \<not> ready e then (Inl NotReady, doc)
      else
        let shop0 = shop_of doc g;
            itemInfo =
              \<lparr>id = next_id shop0,
               itemName = item_options.itemName opts,
               price = item_options.price opts,
               role = role_or_null (item_options.role opts),
               maxAmount = item_options.maxAmount opts,
               date = today,
               message = string_or (item_options.message opts) ''You have used this item!'',
               description =
                 string_or (item_options.description opts) ''Very mysterious item.''\<rparr>
        in persist itemInfo doc (assign_shop (ensure_guild doc g) g (shop0 @ [itemInfo])))"

text \<open>
  \<open>editItem\<close> takes a field name and a value.  The pair is typed here: one of the six
  recognised names with a defined value of the field's type, so the two checks on
  \<open>arg\<close> and \<open>value\<close> pass, as the \<open>typeof\<close> checks on the identifiers do.
\<close>

datatype item_edit =
  Description string | Price int | ItemName string | Message string | MaxAmount int | Role string

fun assign_field :: "item_edit \<Rightarrow> shop_item \<Rightarrow> shop_item" where
  \<comment> \<open>\<open>item[arg] = value\<close>\<close>
  "assign_field (Description v) item = item\<lparr>description := v\<rparr>"
| "assign_field (Price v) item = item\<lparr>price := v\<rparr>"
| "assign_field (ItemName v) item = item\<lparr>itemName := v\<rparr>"
| "assign_field (Message v) item = item\<lparr>message := v\<rparr>"
| "assign_field (MaxAmount v) item = item\<lparr>maxAmount := Some v\<rparr>"
| "assign_field (Role v) item = item\<lparr>role := Some v\<rparr>"

definition shop_editItem ::
  "economy \<Rightarrow> item_key \<Rightarrow> string \<Rightarrow> item_edit \<Rightarrow> document \<Rightarrow> (error + bool) \<times> document" where
  \<comment> \<open>the inner \<open>edit\<close> returns before its write when \<open>findIndex\<close> gives \<open>-1\<close>;
      \<open>editItem\<close> returns \<open>true\<close> after it either way\<close>
  "shop_editItem e itemID g ed doc =
     (if \<not> ready e then (Inl NotReady, doc)
      else
        let shop0 = shop_of doc g
        in case findIndex (matches e itemID) shop0 of
             None \<Rightarrow> (Inr True, doc)
           | Some i \<Rightarrow>
               persist True doc (assign_shop doc g (shop0[i := assign_field ed (shop0 ! i)])))"

definition shop_removeItem ::
  "economy \<Rightarrow> item_key \<Rightarrow> string \<Rightarrow> document \<Rightarrow> (error + bool) \<times> document" where
  "shop_removeItem e itemID g doc =
     (if \<not> ready e then (Inl NotReady, doc)
      else
        let shop0 = shop_of doc g
        in case find (matches e itemID) shop0 of
             None \<Rightarrow> (Inr False, doc)
           | Some item \<Rightarrow>
               persist True doc (assign_shop doc g (filter (\<lambda>x. id x \<noteq> id item) shop0)))"

definition shop_searchItem ::
  "economy \<Rightarrow> item_key \<Rightarrow> string \<Rightarrow> document \<Rightarrow> error + shop_item option" where
  \<comment> \<open>\<open>None\<close> is the return value \<open>false\<close>\<close>
  "shop_searchItem e itemID g doc =
     (if \<not> ready e then Inl NotReady else Inr (find (matches e itemID) (shop_of doc g)))"

text \<open>
  \<open>buy\<close> returns \<open>true\<close>, \<open>false\<close> (no such item) or \<open>'max'\<close>.  The balance
  it debits is \<open>obj[guildID]?.[memberID]?.money\<close> with no default: for a member without
  a record it is \<open>undefined\<close>, whose \<open>Number\<close> is \<open>NaN\<close>, and for a stored
  \<open>null\<close> it is \<open>0\<close>.
\<close>

datatype buy_result = Bought | NoSuchItem | MaxReached

definition amount_reached :: "int option \<Rightarrow> nat \<Rightarrow> bool" where
  \<comment> \<open>\<open>item.maxAmount && count >= item.maxAmount\<close>: \<open>null\<close> and \<open>0\<close> are falsy\<close>
  "amount_reached mx count =
     (case mx of None \<Rightarrow> False | Some k \<Rightarrow> k \<noteq> 0 \<and> int count \<ge> k)"

definition balance_number :: "document \<Rightarrow> string \<Rightarrow> string \<Rightarrow> int option" where
  \<comment> \<open>\<open>Number(obj[guildID]?.[memberID]?.money)\<close>\<close>
  "balance_number obj g m =
     (case member_of obj g m of None \<Rightarrow> None | Some r \<Rightarrow> Some (or_zero (money r)))"

definition shop_buy ::
  "economy \<Rightarrow> item_key \<Rightarrow> string \<Rightarrow> string \<Rightarrow> string \<Rightarrow> document
     \<Rightarrow> (error + buy_result) \<times> document" where
  "shop_buy e itemID m g today doc =
     (if \<not> ready e then (Inl NotReady, doc)
      else
        case find (matches e itemID) (shop_of doc g) of
          None \<Rightarrow> (Inr NoSuchItem, doc)
        | Some item \<Rightarrow>
            let obj = ensure_guild doc g
            in if amount_reached (maxAmount item)
                    (length (filter (\<lambda>x. itemName x = itemName item) (inventory_of doc g m)))
               then (Inr MaxReached, doc)
               else
                 let bal = balance_number obj g m;
                     inv = inventory_of obj g m;
                     itemData =
                       \<lparr>id = next_id inv,
                        itemName = itemName item,
                        price = price item,
                        role = role_or_null (role item),
                        maxAmount = maxAmount item,
                        date = today,
                        message = message item\<rparr>;
                     hist = history_of doc g m;
                     entry =
                       \<lparr>id = next_id hist,
                        itemName = itemName item,
                        price = price item,
                        role = role_or_null (role item),
                        maxAmount = maxAmount item,
                        date = today,
                        memberID = m,
                        guildID = g\<rparr>
                 in (case assign_member obj g m
                       \<lparr>dailyCooldown = dailyCooldown_of doc g m,
                        workCooldown = workCooldown_of doc g m,
                        weeklyCooldown = weeklyCooldown_of doc g m,
                        money = (case bal of None \<Rightarrow> None | Some b \<Rightarrow> to_double (b - price item)),
                        bank = Some (bank_of doc g m),
                        inventory = inv @ [itemData],
                        history = hist @ [entry]\<rparr> of
                       None \<Rightarrow> (Inl TypeError, obj)
                     | Some d \<Rightarrow> (Inr Bought, d)))"

text \<open>
  \<open>useItem\<close> returns the item's message, or \<open>false\<close> (\<open>None\<close>) when the inventory
  has no such item.  \<open>client\<close> tells whether the Discord client was passed; the role
  it grants through the client is outside the document.
\<close>

definition shop_useItem ::
  "economy \<Rightarrow> item_key \<Rightarrow> string \<Rightarrow> string \<Rightarrow> bool \<Rightarrow> document
     \<Rightarrow> (error + string option) \<times> document" where
  "shop_useItem e itemID m g client doc =
     (if \<not> ready e then (Inl NotReady, doc)
      else
        let inv = inventory_of doc g m
        in case findIndex (matches e itemID) inv of
             None \<Rightarrow> (Inr None, doc)
           | Some i \<Rightarrow>
               let item = inv ! i
               in if role_or_null (role item) \<noteq> None \<and> \<not> client then (Inl NeedClient, doc)
                  else persist (Some (message item)) doc
                    (assign_member doc g m
                      \<lparr>dailyCooldown = dailyCooldown_of doc g m,
                       workCooldown = workCooldown_of doc g m,
                       weeklyCooldown = weeklyCooldown_of doc g m,
                       money = Some (money_of doc g m),
                       bank = Some (bank_of doc g m),
                       inventory = filter (\<lambda>x. id x \<noteq> id item) inv,
                       history = history_of doc g m\<rparr>))"

text \<open>
  \<open>clearInventory\<close> and \<open>clearHistory\<close> assign \<open>obj[guildID][memberID]\<close> without
  creating the guild first.
\<close>

definition shop_clearInventory ::
  "economy \<Rightarrow> string \<Rightarrow> string \<Rightarrow> document \<Rightarrow> (error + bool) \<times> document" where
  "shop_clearInventory e m g doc =
     (if \<not> ready e then (Inl NotReady, doc)
      else persist True doc
        (assign_member doc g m
          \<lparr>dailyCooldown = dailyCooldown_of doc g m,
           workCooldown = workCooldown_of doc g m,
           weeklyCooldown = weeklyCooldown_of doc g m,
           money = Some (money_of doc g m),
           bank = Some (bank_of doc g m),
           inventory = [],
           history = history_of doc g m\<rparr>))"

definition shop_clearHistory ::
  "economy \<Rightarrow> string \<Rightarrow> string \<Rightarrow> document \<Rightarrow> (error + bool) \<times> document" where
  "shop_clearHistory e m g doc =
     (if \<not> ready e then (Inl NotReady, doc)
      else persist True doc
        (assign_member doc g m
          \<lparr>dailyCooldown = dailyCooldown_of doc g m,
           workCooldown = workCooldown_of doc g m,
           weeklyCooldown = weeklyCooldown_of doc g m,
           money = Some (money_of doc g m),
           bank = Some (bank_of doc g m),
           inventory = inventory_of doc g m,
           history = []\<rparr>))"

section \<open>RewardManager\<close>

text \<open>
  \<open>getDaily\<close>, \<open>getWork\<close> and \<open>getWeekly\<close> of the RewardManager.  What they read
  from the managers they hold is an argument: \<open>settings\<close> is the guild's settings
  (\<open>database.get\<close>), \<open>userCooldown\<close> the timestamp the cooldown manager returns, and
  \<open>fmt\<close> the duration formatter \<open>ms\<close>.  What they ask the managers to write is returned
  as the list of calls made, in order.  \<open>t1\<close> and \<open>t2\<close> are the two readings of
  the clock, and the reward is drawn in exact arithmetic, as in the Economy class.
\<close>

record time_data =
  days :: int
  hours :: int
  minutes :: int
  seconds :: int
  milliseconds :: int

definition parse :: "int \<Rightarrow> time_data" where
  \<comment> \<open>called with a positive duration only, where \<open>Math.floor(x / d % n)\<close> is
      \<open>x div d mod n\<close>\<close>
  "parse t =
     \<lparr>days = t div 86400000,
      hours = t div 3600000 mod 24,
      minutes = t div 60000 mod 60,
      seconds = t div 1000 mod 60,
      milliseconds = t mod 1000\<rparr>"

record cooldown_data =
  time :: time_data
  pretty :: string

record reward_data =
  type :: string
  status :: bool
  cooldown :: "cooldown_data option"
  reward :: "int option"
  defaultReward :: reward_spec

datatype manager_call =
  BalanceAdd "int option" string string string
| DatabaseSet string int

definition number_or :: "int option \<Rightarrow> int \<Rightarrow> int" where
  \<comment> \<open>\<open>x || d\<close> on numbers\<close>
  "number_or x d = (case x of None \<Rightarrow> d | Some n \<Rightarrow> if n = 0 then d else n)"

definition spec_or :: "reward_spec option \<Rightarrow> reward_spec \<Rightarrow> reward_spec" where
  \<comment> \<open>\<open>x || d\<close> on a number or an array; every array is truthy\<close>
  "spec_or x d = (case x of None \<Rightarrow> d | Some (RNumber n) \<Rightarrow> if n = 0 then d else RNumber n
                  | Some (RArray xs) \<Rightarrow> RArray xs)"

definition draw :: "reward_spec \<Rightarrow> real \<Rightarrow> int option" where
  \<comment> \<open>\<open>const [min, max] = defaultReward\<close>; a one-element array gives \<open>min\<close>,
      otherwise \<open>Math.floor(Math.random() * (Number(min) - Number(max)) + Number(max))\<close>\<close>
  "draw spec r =
     (case spec of
        RNumber n \<Rightarrow> Some n
      | RArray xs \<Rightarrow>
          (case xs of
             [] \<Rightarrow> None
           | [mn] \<Rightarrow> Some mn
           | mn # mx # _ \<Rightarrow> Some \<lfloor>r * (of_int mn - of_int mx) + of_int mx\<rfloor>))"

definition grant ::
  "(int \<Rightarrow> string) \<Rightarrow> string \<Rightarrow> int \<Rightarrow> reward_spec \<Rightarrow> int option \<Rightarrow> int \<Rightarrow> int \<Rightarrow> real
     \<Rightarrow> string \<Rightarrow> string \<Rightarrow> string \<Rightarrow> reward_data \<times> manager_call list" where
  \<comment> \<open>the body the three methods share, after the cooldown \<open>duration\<close> and the
      default reward \<open>spec\<close> have been resolved; \<open>kind\<close> is \<open>'daily'\<close>,
      \<open>'work'\<close> or \<open>'weekly'\<close>.  \<open>cooldownEnd\<close> is computed once, from the
      first reading of the clock; the stamp of a due claim is the second\<close>
  "grant fmt kind duration spec userCooldown t1 t2 r m g reason =
     (let drawn = draw spec r;
          cooldownEnd = duration - (t1 - or_zero userCooldown)
      in if userCooldown \<noteq> None \<and> cooldownEnd > 0
         then (\<lparr>type = kind, status = False,
                 cooldown = Some \<lparr>time = parse cooldownEnd, pretty = fmt cooldownEnd\<rparr>,
                 reward = None, defaultReward = spec\<rparr>, [])
         else (\<lparr>type = kind, status = True, cooldown = None,
                 reward = drawn, defaultReward = spec\<rparr>,
               [BalanceAdd drawn m g reason,
                DatabaseSet (g @ ''.'' @ m @ ''.'' @ kind @ ''Cooldown'') t2]))"

definition getDaily ::
  "(int \<Rightarrow> string) \<Rightarrow> reward_options \<Rightarrow> reward_settings option \<Rightarrow> int option \<Rightarrow> int \<Rightarrow> int
     \<Rightarrow> real \<Rightarrow> string \<Rightarrow> string \<Rightarrow> string \<Rightarrow> reward_data \<times> manager_call list" where
  "getDaily fmt opts settings userCooldown t1 t2 r m g reason =
     grant fmt ''daily''
       (number_or (case settings of None \<Rightarrow> None | Some s \<Rightarrow> reward_settings.dailyCooldown s)
          (reward_options.dailyCooldown opts))
       (spec_or (case settings of None \<Rightarrow> None | Some s \<Rightarrow> reward_settings.dailyAmount s)
          (reward_options.dailyAmount opts))
       userCooldown t1 t2 r m g reason"

definition getWork ::
  "(int \<Rightarrow> string) \<Rightarrow> reward_options \<Rightarrow> reward_settings option \<Rightarrow> int option \<Rightarrow> int \<Rightarrow> int
     \<Rightarrow> real \<Rightarrow> string \<Rightarrow> string \<Rightarrow> string \<Rightarrow> reward_data \<times> manager_call list" where
  "getWork fmt opts settings userCooldown t1 t2 r m g reason =
     grant fmt ''work''
       (number_or (case settings of None \<Rightarrow> None | Some s \<Rightarrow> reward_settings.workCooldown s)
          (reward_options.workCooldown opts))
       (spec_or (case settings of None \<Rightarrow> None | Some s \<Rightarrow> reward_settings.workAmount s)
          (reward_options.workAmount opts))
       userCooldown t1 t2 r m g reason"

definition getWeekly ::
  "(int \<Rightarrow> string) \<Rightarrow> reward_options \<Rightarrow> reward_settings option \<Rightarrow> int option \<Rightarrow> int \<Rightarrow> int
     \<Rightarrow> real \<Rightarrow> string \<Rightarrow> string \<Rightarrow> string \<Rightarrow> reward_data \<times> manager_call list" where
  "getWeekly fmt opts settings userCooldown t1 t2 r m g reason =
     grant fmt ''weekly''
       (number_or (case settings of None \<Rightarrow> None | Some s \<Rightarrow> reward_settings.weeklyCooldown s)
          (reward_options.weeklyCooldown opts))
       (spec_or (case settings of None \<Rightarrow> None | Some s \<Rightarrow> reward_settings.weeklyAmount s)
          (reward_options.weeklyAmount opts))
       userCooldown t1 t2 r m g reason"

section \<open>Example configuration and documents\<close>

text \<open>
  An initialised Economy with the default options, and small documents on which the
  theorems below are exercised.  The names used in them are not numerals, so
  \<open>ToNumber\<close> gives \<open>NaN\<close> on each.
\<close>

definition eco :: economy where
  "eco = \<lparr>ready = True,
          options = \<lparr>options.dailyCooldown = 86400000, options.workCooldown = 3600000,
                     options.weeklyCooldown = 604800000, options.dailyAmount = 100,
                     options.workAmount = RArray [10, 50], options.weeklyAmount = 1000\<rparr>,
          ms = (\<lambda>t. ''wait''),
          ToNumber = (\<lambda>s. None)\<rparr>"

definition saver :: member where
  "saver = \<lparr>dailyCooldown = None, workCooldown = None, weeklyCooldown = None,
            money = Some 10, bank = Some 7, inventory = [], history = []\<rparr>"

definition doc_saver :: document where
  "doc_saver = [''G1'' \<mapsto> \<lparr>members = [''M1'' \<mapsto> saver], shop = None\<rparr>]"

definition claimant :: member where
  "claimant = \<lparr>dailyCooldown = Some 1700000000000, workCooldown = Some 1700000000000,
            weeklyCooldown = Some 1700000000000,
            money = Some 1110, bank = Some 0, inventory = [], history = []\<rparr>"

definition doc_claimant :: document where
  "doc_claimant = [''G1'' \<mapsto> \<lparr>members = [''M1'' \<mapsto> claimant], shop = None\<rparr>]"

definition reward_opts :: reward_options where
  "reward_opts = \<lparr>reward_options.dailyCooldown = 86400000, reward_options.workCooldown = 3600000,
      reward_options.weeklyCooldown = 604800000, reward_options.dailyAmount = RNumber 100,
      reward_options.workAmount = RArray [10, 50], reward_options.weeklyAmount = RNumber 1000\<rparr>"


definition sword :: shop_item where
  "sword = \<lparr>id = 1, itemName = ''sword'', price = 50, role = None, maxAmount = Some 1,
             date = ''01.01.2024'', message = ''You have used this item!'',
             description = ''Very mysterious item.''\<rparr>"

definition doc_shop :: document where
  "doc_shop = [''G1'' \<mapsto> \<lparr>members = Map.empty, shop = Some [sword]\<rparr>]"

definition held_sword :: inventory_item where
  "held_sword = \<lparr>id = 1, itemName = ''sword'', price = 50, role = None, maxAmount = Some 1,
                  date = ''02.01.2024'', message = ''You have used this item!''\<rparr>"

definition bought_sword :: history_item where
  "bought_sword = \<lparr>id = 1, itemName = ''sword'', price = 50, role = None, maxAmount = Some 1,
                    date = ''02.01.2024'', memberID = ''M1'', guildID = ''G1''\<rparr>"

definition owner :: member where
  "owner = \<lparr>dailyCooldown = None, workCooldown = None, weeklyCooldown = None,
            money = Some 50, bank = Some 0, inventory = [held_sword], history = [bought_sword]\<rparr>"

definition doc_owner :: document where
  "doc_owner = [''G1'' \<mapsto> \<lparr>members = [''M1'' \<mapsto> owner], shop = Some [sword]\<rparr>]"

definition ticket :: shop_item where
  "ticket = \<lparr>id = 1, itemName = ''ticket'', price = 50, role = None, maxAmount = Some 0,
             date = ''01.01.2024'', message = ''You have used this item!'',
             description = ''Very mysterious item.''\<rparr>"

definition doc_ticket :: document where
  "doc_ticket = [''G1'' \<mapsto> \<lparr>members = [''M1'' \<mapsto> saver], shop = Some [ticket]\<rparr>]"


definition second_sword :: item_options where
  "second_sword = \<lparr>item_options.itemName = ''sword'', item_options.price = 70,
      item_options.message = None, item_options.description = None,
      item_options.maxAmount = None, item_options.role = None\<rparr>"

definition shield :: item_options where
  "shield = \<lparr>item_options.itemName = ''shield'', item_options.price = 30,
      item_options.message = None, item_options.description = None,
      item_options.maxAmount = Some 2, item_options.role = None\<rparr>"


definition bow :: shop_item where
  "bow = \<lparr>id = 2, itemName = ''bow'', price = 80, role = None, maxAmount = None,
           date = ''01.01.2024'', message = ''You have used this item!'',
           description = ''Very mysterious item.''\<rparr>"

definition doc_armoury :: document where
  "doc_armoury = [''G1'' \<mapsto> \<lparr>members = Map.empty, shop = Some [sword, bow]\<rparr>]"



section \<open>Rounding: where sums and differences are exact\<close>

lemma ulp_small: "n < 9007199254740992 \<Longrightarrow> ulp n = 1"
  by (subst ulp.simps) simp

lemma ulp_next: "n = 9007199254740992 \<or> n = 9007199254740993 \<Longrightarrow> ulp n = 2"
  by (subst ulp.simps) (auto simp: ulp_small)

lemma nearest_even_unit: "nearest_even n 1 = n"
  by (simp add: nearest_even_def)

lemma finite_small: "n \<le> 9007199254740992 \<Longrightarrow> \<not> (2::nat) ^ 1024 \<le> n"
proof -
  have "(9007199254740992::nat) < 2 ^ 1024" by simp
  then show "n \<le> 9007199254740992 \<Longrightarrow> \<not> (2::nat) ^ 1024 \<le> n" by linarith
qed

lemma to_double_exact: "\<bar>x\<bar> \<le> 9007199254740992 \<Longrightarrow> to_double x = Some x"
proof (cases "\<bar>x\<bar> < 9007199254740992")
  case True
  assume b: "\<bar>x\<bar> \<le> 9007199254740992"
  from True have "nat \<bar>x\<bar> < 9007199254740992" by linarith
  then have u: "ulp (nat \<bar>x\<bar>) = 1" by (rule ulp_small)
  have f: "\<not> (2::nat) ^ 1024 \<le> nat \<bar>x\<bar>"
    using b by (intro finite_small) linarith
  show ?thesis
    unfolding to_double_def Let_def u nearest_even_unit
    using f by (simp add: mult_sgn_abs)
next
  case False
  assume "\<bar>x\<bar> \<le> 9007199254740992"
  with False have a: "\<bar>x\<bar> = 9007199254740992" by simp
  then have n: "nat \<bar>x\<bar> = 9007199254740992" by simp
  have u: "ulp 9007199254740992 = 2" by (rule ulp_next) simp
  have r: "nearest_even 9007199254740992 2 = 9007199254740992"
    by (simp add: nearest_even_def Let_def)
  have f: "\<not> (2::nat) ^ 1024 \<le> 9007199254740992"
    by (rule finite_small) simp
  have "sgn x * 9007199254740992 = x"
    using a mult_sgn_abs [of x] by simp
  then show ?thesis
    unfolding to_double_def Let_def n u r
    using f by simp
qed


section \<open>Balance ledger: what is returned and what is stored\<close>

lemma persist_assigned:
  "\<exists>d. persist v doc (assign_member (ensure_guild doc g) g m r) = (Inr v, d)
        \<and> member_of d g m = Some r"
  by (simp add: persist_def assign_member_def ensure_guild_def member_of_def split: option.split)

lemma money_of_member: "member_of d g m = Some r \<Longrightarrow> money_of d g m = or_zero (money r)"
  by (simp add: money_of_def)

lemma bank_of_member: "member_of d g m = Some r \<Longrightarrow> bank_of d g m = or_zero (bank r)"
  by (simp add: bank_of_def)

lemma set_money_stores:
  "ready e \<Longrightarrow> \<exists>d. set_money e (Some a) m g doc = (Inr a, d) \<and> money_of d g m = a"
  unfolding set_money_def
  using persist_assigned [of a doc g m]
  by (fastforce simp: money_of_member or_zero_def)

lemma add_stores:
  "ready e \<Longrightarrow>
     \<exists>d. add e (Some a) m g doc = (Inr a, d)
        \<and> money_of d g m = or_zero (to_double (money_of doc g m + a))"
  unfolding add_def
  using persist_assigned [of a doc g m]
  by (fastforce simp: money_of_member)

lemma subtract_stores:
  "ready e \<Longrightarrow>
     \<exists>d. subtract e (Some a) m g doc = (Inr a, d)
        \<and> money_of d g m = or_zero (to_double (money_of doc g m - a))"
  unfolding subtract_def
  using persist_assigned [of a doc g m]
  by (fastforce simp: money_of_member)

lemma bankSet_stores:
  "ready e \<Longrightarrow> \<exists>d. bankSet e (Some a) m g doc = (Inr a, d) \<and> bank_of d g m = a"
  unfolding bankSet_def
  using persist_assigned [of a doc g m]
  by (fastforce simp: bank_of_member or_zero_def)

lemma bankAdd_stores:
  "ready e \<Longrightarrow>
     \<exists>d. bankAdd e (Some a) m g doc = (Inr a, d)
        \<and> bank_of d g m = or_zero (to_double (bank_of doc g m + a))"
  unfolding bankAdd_def
  using persist_assigned [of a doc g m]
  by (fastforce simp: bank_of_member)

lemma bankSubtract_stores:
  "ready e \<Longrightarrow>
     \<exists>d. bankSubtract e (Some a) m g doc = (Inr a, d)
        \<and> bank_of d g m = or_zero (to_double (bank_of doc g m - a))"
  unfolding bankSubtract_def
  using persist_assigned [of a doc g m]
  by (fastforce simp: bank_of_member)

lemma stored_exact: "\<bar>x\<bar> \<le> 9007199254740992 \<Longrightarrow> or_zero (to_double x) = x"
  by (simp add: to_double_exact or_zero_def)

lemma fetch_saver: "fetch eco ''M1'' ''G1'' doc_saver = Inr 10"
  by (simp add: fetch_def eco_def doc_saver_def saver_def money_of_def member_of_def or_zero_def)

lemma bankFetch_saver: "bankFetch eco ''M1'' ''G1'' doc_saver = Inr 7"
  by (simp add: bankFetch_def eco_def doc_saver_def saver_def bank_of_def member_of_def
      or_zero_def)

text \<open>
  Claim C3, as stated: each of \<open>set\<close>, \<open>add\<close>, \<open>subtract\<close> and the bank mirrors
  returns the new balance.  It fails for \<open>add\<close>: on a member holding 10, \<open>add(5)\<close>
  returns 5, the amount, and not 15.
\<close>

theorem add_returns_amount_counterexample:
  "fetch eco ''M1'' ''G1'' doc_saver = Inr 10
   \<and> fst (add eco (Some 5) ''M1'' ''G1'' doc_saver) = Inr 5
   \<and> fst (add eco (Some 5) ''M1'' ''G1'' doc_saver) \<noteq> Inr (10 + 5)"
  by (simp add: fetch_def add_def eco_def persist_def assign_member_def ensure_guild_def
      doc_saver_def saver_def money_of_def member_of_def or_zero_def)

text \<open>
  Claim C3, amended: for every integer amount, member and guild, each of \<open>set\<close>,
  \<open>add\<close>, \<open>subtract\<close>, \<open>bankSet\<close>, \<open>bankAdd\<close> and \<open>bankSubtract\<close> returns the
  amount it was given.  The balance it stores, as \<open>fetch\<close> (or \<open>bankFetch\<close>) reads it
  afterwards, is the amount for set; for add and subtract it is \<open>current + amount\<close> and
  \<open>current - amount\<close>, where \<open>current\<close> is the balance read before the operation,
  whenever that result is within \<open>2^53\<close> of zero, where the program's arithmetic is
  exact.
\<close>

theorem ledger_returns_amount:
  assumes "fetch e m g doc = Inr current" and "bankFetch e m g doc = Inr saved"
  shows "fst (set_money e (Some a) m g doc) = Inr a
       \<and> fetch e m g (snd (set_money e (Some a) m g doc)) = Inr a
       \<and> fst (add e (Some a) m g doc) = Inr a
       \<and> (\<bar>current + a\<bar> \<le> 9007199254740992
            \<longrightarrow> fetch e m g (snd (add e (Some a) m g doc)) = Inr (current + a))
       \<and> fst (subtract e (Some a) m g doc) = Inr a
       \<and> (\<bar>current - a\<bar> \<le> 9007199254740992
            \<longrightarrow> fetch e m g (snd (subtract e (Some a) m g doc)) = Inr (current - a))
       \<and> fst (bankSet e (Some a) m g doc) = Inr a
       \<and> bankFetch e m g (snd (bankSet e (Some a) m g doc)) = Inr a
       \<and> fst (bankAdd e (Some a) m g doc) = Inr a
       \<and> (\<bar>saved + a\<bar> \<le> 9007199254740992
            \<longrightarrow> bankFetch e m g (snd (bankAdd e (Some a) m g doc)) = Inr (saved + a))
       \<and> fst (bankSubtract e (Some a) m g doc) = Inr a
       \<and> (\<bar>saved - a\<bar> \<le> 9007199254740992
            \<longrightarrow> bankFetch e m g (snd (bankSubtract e (Some a) m g doc)) = Inr (saved - a))"
proof -
  have r: "ready e" and c: "money_of doc g m = current" and s: "bank_of doc g m = saved"
    using assms by (auto simp: fetch_def bankFetch_def split: if_splits)
  show ?thesis
    using set_money_stores [OF r, of a m g doc] add_stores [OF r, of a m g doc]
      subtract_stores [OF r, of a m g doc] bankSet_stores [OF r, of a m g doc]
      bankAdd_stores [OF r, of a m g doc] bankSubtract_stores [OF r, of a m g doc] r c s
    by (auto simp: fetch_def bankFetch_def stored_exact)
qed

theorem ledger_returns_amount_witness:
  "fetch eco ''M1'' ''G1'' doc_saver = Inr 10 \<and> bankFetch eco ''M1'' ''G1'' doc_saver = Inr 7
   \<and> \<bar>10 + 5\<bar> \<le> (9007199254740992::int) \<and> \<bar>10 - 5\<bar> \<le> (9007199254740992::int)
   \<and> \<bar>7 + 5\<bar> \<le> (9007199254740992::int) \<and> \<bar>7 - 5\<bar> \<le> (9007199254740992::int)
   \<and> fst (add eco (Some 5) ''M1'' ''G1'' doc_saver) = Inr 5
   \<and> fetch eco ''M1'' ''G1'' (snd (add eco (Some 5) ''M1'' ''G1'' doc_saver)) = Inr 15
   \<and> fetch eco ''M1'' ''G1'' (snd (subtract eco (Some 5) ''M1'' ''G1'' doc_saver)) = Inr 5
   \<and> bankFetch eco ''M1'' ''G1'' (snd (bankAdd eco (Some 5) ''M1'' ''G1'' doc_saver)) = Inr 12
   \<and> fst (bankSubtract eco (Some 5) ''M1'' ''G1'' doc_saver) = Inr 5
   \<and> bankFetch eco ''M1'' ''G1'' (snd (bankSubtract eco (Some 5) ''M1'' ''G1'' doc_saver)) = Inr 2"
  using fetch_saver bankFetch_saver
    ledger_returns_amount [OF fetch_saver bankFetch_saver, of 5]
  by simp





section \<open>Cooldown gate: a claim before it is due\<close>

text \<open>The time a refusal carries, decomposed by \<open>parse\<close>, adds up to the duration.\<close>

lemma parse_recomposes:
  "days (parse t) * 86400000 + hours (parse t) * 3600000 + minutes (parse t) * 60000
     + seconds (parse t) * 1000 + milliseconds (parse t) = t"
proof -
  define q1 where "q1 = t div 1000"
  define q2 where "q2 = q1 div 60"
  define q3 where "q3 = q2 div 60"
  define q4 where "q4 = q3 div 24"
  have m: "t div 60000 = q2"
    using zdiv_zmult2_eq [of 60 t 1000] by (simp add: q1_def q2_def)
  have h: "t div 3600000 = q3"
    using zdiv_zmult2_eq [of 60 t 60000] m by (simp add: q3_def)
  have d: "t div 86400000 = q4"
    using zdiv_zmult2_eq [of 24 t 3600000] h by (simp add: q4_def)
  have e1: "t = q1 * 1000 + t mod 1000" by (simp add: q1_def)
  have e2: "q1 = q2 * 60 + q1 mod 60" by (simp add: q2_def)
  have e3: "q2 = q3 * 60 + q2 mod 60" by (simp add: q3_def)
  have e4: "q3 = q4 * 24 + q3 mod 24" by (simp add: q4_def)
  have "q4 * 86400000 + q3 mod 24 * 3600000 + q2 mod 60 * 60000 + q1 mod 60 * 1000
          + t mod 1000 = t"
    using e1 e2 e3 e4 by linarith
  then show ?thesis
    by (simp add: parse_def m h d q1_def [symmetric])
qed

text \<open>
  A claim made while the first reading of the clock is before the due time is refused
  and nothing is written, whatever the second reading.  The Economy class returns the
  time remaining at the second reading; the RewardManager, which computes it once, returns
  the time remaining at the first, decomposed and formatted, and calls neither the balance
  nor the database manager.
\<close>

lemma daily_refused:
  assumes "getDailyCooldown e m g doc = Inr (Some cd)"
    and "options.dailyCooldown (options e) - (t1 - cd) > 0"
  shows "daily e t1 t2 m g doc
           = (Inr (Wait (ms e (options.dailyCooldown (options e) - (t2 - cd)))), doc)"
  using assms by (auto simp: daily_def getDailyCooldown_def Let_def split: if_splits)

lemma work_refused:
  assumes "getWorkCooldown e m g doc = Inr (Some cd)"
    and "options.workCooldown (options e) - (t1 - cd) > 0"
  shows "work e t1 t2 r m g doc
           = (Inr (Wait (ms e (options.workCooldown (options e) - (t2 - cd)))), doc)"
  using assms by (auto simp: work_def getWorkCooldown_def Let_def split: if_splits)

lemma weekly_refused:
  assumes "getWeeklyCooldown e m g doc = Inr (Some cd)"
    and "options.weeklyCooldown (options e) - (t1 - cd) > 0"
  shows "weekly e t1 t2 m g doc
           = (Inr (Wait (ms e (options.weeklyCooldown (options e) - (t2 - cd)))), doc)"
  using assms by (auto simp: weekly_def getWeeklyCooldown_def Let_def split: if_splits)

lemma grant_refused:
  assumes "duration - (t1 - cd) > 0"
  shows "grant fmt kind duration spec (Some cd) t1 t2 r m g reason
           = (\<lparr>type = kind, status = False,
                cooldown = Some \<lparr>time = parse (duration - (t1 - cd)),
                                 pretty = fmt (duration - (t1 - cd))\<rparr>,
                reward = None, defaultReward = spec\<rparr>, [])"
  using assms by (simp add: grant_def or_zero_def Let_def)

lemma getDaily_refused:
  assumes "number_or (case settings of None \<Rightarrow> None | Some s \<Rightarrow> reward_settings.dailyCooldown s)
             (reward_options.dailyCooldown opts) - (t1 - cd) = remaining" and "remaining > 0"
  shows "status (fst (getDaily fmt opts settings (Some cd) t1 t2 r m g reason)) = False
       \<and> cooldown (fst (getDaily fmt opts settings (Some cd) t1 t2 r m g reason))
           = Some \<lparr>time = parse remaining, pretty = fmt remaining\<rparr>
       \<and> reward (fst (getDaily fmt opts settings (Some cd) t1 t2 r m g reason)) = None
       \<and> snd (getDaily fmt opts settings (Some cd) t1 t2 r m g reason) = []"
  using assms by (simp add: getDaily_def grant_refused)

lemma getWork_refused:
  assumes "number_or (case settings of None \<Rightarrow> None | Some s \<Rightarrow> reward_settings.workCooldown s)
             (reward_options.workCooldown opts) - (t1 - cd) = remaining" and "remaining > 0"
  shows "status (fst (getWork fmt opts settings (Some cd) t1 t2 r m g reason)) = False
       \<and> cooldown (fst (getWork fmt opts settings (Some cd) t1 t2 r m g reason))
           = Some \<lparr>time = parse remaining, pretty = fmt remaining\<rparr>
       \<and> reward (fst (getWork fmt opts settings (Some cd) t1 t2 r m g reason)) = None
       \<and> snd (getWork fmt opts settings (Some cd) t1 t2 r m g reason) = []"
  using assms by (simp add: getWork_def grant_refused)

lemma getWeekly_refused:
  assumes "number_or (case settings of None \<Rightarrow> None | Some s \<Rightarrow> reward_settings.weeklyCooldown s)
             (reward_options.weeklyCooldown opts) - (t1 - cd) = remaining" and "remaining > 0"
  shows "status (fst (getWeekly fmt opts settings (Some cd) t1 t2 r m g reason)) = False
       \<and> cooldown (fst (getWeekly fmt opts settings (Some cd) t1 t2 r m g reason))
           = Some \<lparr>time = parse remaining, pretty = fmt remaining\<rparr>
       \<and> reward (fst (getWeekly fmt opts settings (Some cd) t1 t2 r m g reason)) = None
       \<and> snd (getWeekly fmt opts settings (Some cd) t1 t2 r m g reason) = []"
  using assms by (simp add: getWeekly_def grant_refused)

text \<open>
  Claim C1: a claim before the cooldown has elapsed returns a not-claimable outcome
  carrying a remaining time greater than zero, and changes nothing.  The Economy class
  reads the clock once for the test and again for the time it returns.  With the last
  claim at 1700000000000 and a day's cooldown, a call whose first reading is the last
  millisecond before the due time and whose second is the due time is refused, and the
  time it hands to the formatter is \<open>0\<close>; \<open>work\<close> and \<open>weekly\<close> do the same.
  \<open>getDaily\<close> of the RewardManager, at the same readings, carries the one millisecond
  that remained at the test.
\<close>

theorem remaining_time_read_late:
  "\<forall>fmt.
     getDailyCooldown (eco\<lparr>ms := fmt\<rparr>) ''M1'' ''G1'' doc_claimant = Inr (Some 1700000000000)
   \<and> options.dailyCooldown (options (eco\<lparr>ms := fmt\<rparr>)) - (1700086399999 - 1700000000000) = 1
   \<and> daily (eco\<lparr>ms := fmt\<rparr>) 1700086399999 1700086400000 ''M1'' ''G1'' doc_claimant
       = (Inr (Wait (fmt 0)), doc_claimant)
   \<and> work (eco\<lparr>ms := fmt\<rparr>) 1700003599999 1700003600000 (1 / 2) ''M1'' ''G1'' doc_claimant
       = (Inr (Wait (fmt 0)), doc_claimant)
   \<and> weekly (eco\<lparr>ms := fmt\<rparr>) 1700604799999 1700604800000 ''M1'' ''G1'' doc_claimant
       = (Inr (Wait (fmt 0)), doc_claimant)
   \<and> cooldown (fst (getDaily fmt reward_opts None (Some 1700000000000)
                      1700086399999 1700086400000 0 ''M1'' ''G1'' ''claimed the daily reward''))
       = Some \<lparr>time = parse 1, pretty = fmt 1\<rparr>"
  by (simp add: daily_def work_def weekly_def getDailyCooldown_def dailyCooldown_of_def
      workCooldown_of_def weeklyCooldown_of_def member_of_def doc_claimant_def claimant_def
      eco_def or_null_def Let_def getDaily_def grant_def number_or_def or_zero_def
      reward_opts_def)

section \<open>Shop engine: items that are not there, and the cap\<close>

lemma findIndex_None: "findIndex P xs = None \<longleftrightarrow> (\<forall>x\<in>set xs. \<not> P x)"
  by (induction xs) auto

text \<open>
  Claim C9: for every member whose inventory holds no item matching \<open>itemID\<close> by id
  or by name, \<open>useItem\<close> returns \<open>false\<close> and leaves the persisted document, and
  with it the member's inventory and history, as it was.
\<close>

theorem use_absent_item_changes_nothing:
  assumes "ready e" and "\<forall>x\<in>set (inventory_of doc g m). \<not> matches e itemID x"
  shows "shop_useItem e itemID m g client doc = (Inr None, doc)"
proof -
  have "findIndex (matches e itemID) (inventory_of doc g m) = None"
    using assms(2) by (simp add: findIndex_None)
  then show ?thesis
    using assms(1) by (simp add: shop_useItem_def Let_def)
qed

theorem use_absent_item_changes_nothing_witness:
  "ready eco \<and> inventory_of doc_owner ''G1'' ''M1'' = [held_sword]
   \<and> \<not> matches eco (KString ''shield'') held_sword
   \<and> shop_useItem eco (KString ''shield'') ''M1'' ''G1'' False doc_owner = (Inr None, doc_owner)"
proof -
  have r: "ready eco" by (simp add: eco_def)
  have i: "inventory_of doc_owner ''G1'' ''M1'' = [held_sword]"
    by (simp add: inventory_of_def member_of_def doc_owner_def owner_def)
  have n: "\<not> matches eco (KString ''shield'') held_sword"
    by (simp add: matches_def eq_number_def eq_string_def eco_def held_sword_def)
  have a: "\<forall>x\<in>set (inventory_of doc_owner ''G1'' ''M1''). \<not> matches eco (KString ''shield'') x"
    using i n by simp
  show ?thesis
    using r i n use_absent_item_changes_nothing [OF r a, of False] by simp
qed

text \<open>
  Claim C10: for every recognised field name and defined value, \<open>editItem\<close> returns
  \<open>true\<close> also when no item of the guild's catalog matches \<open>itemID\<close> by id or by
  name, and the persisted document is then unchanged.
\<close>

theorem edit_absent_item_returns_true:
  assumes "ready e" and "\<forall>x\<in>set (shop_of doc g). \<not> matches e itemID x"
  shows "shop_editItem e itemID g edit doc = (Inr True, doc)"
proof -
  have "findIndex (matches e itemID) (shop_of doc g) = None"
    using assms(2) by (simp add: findIndex_None)
  then show ?thesis
    using assms(1) by (simp add: shop_editItem_def Let_def)
qed

theorem edit_absent_item_returns_true_witness:
  "ready eco \<and> shop_of doc_shop ''G1'' = [sword] \<and> \<not> matches eco (KNumber 7) sword
   \<and> shop_editItem eco (KNumber 7) ''G1'' (Price 5) doc_shop = (Inr True, doc_shop)"
proof -
  have r: "ready eco" by (simp add: eco_def)
  have s: "shop_of doc_shop ''G1'' = [sword]"
    by (simp add: shop_of_def doc_shop_def)
  have n: "\<not> matches eco (KNumber 7) sword"
    by (simp add: matches_def eq_number_def eq_string_def eco_def sword_def)
  have a: "\<forall>x\<in>set (shop_of doc_shop ''G1''). \<not> matches eco (KNumber 7) x"
    using s n by simp
  show ?thesis
    using r s n edit_absent_item_returns_true [OF r a, of "Price 5"] by simp
qed

text \<open>
  Claim C5, as stated: an item whose \<open>maxAmount\<close> is set and reached is not sold.  The
  cap is tested with \<open>item.maxAmount &&\<close>, so a cap of \<open>0\<close> counts as no cap: the
  member holding none of the item (at least \<open>0\<close>) buys it and is debited.
\<close>

theorem zero_cap_counterexample:
  "find (matches eco (KString ''ticket'')) (shop_of doc_ticket ''G1'') = Some ticket
   \<and> maxAmount ticket = Some 0
   \<and> int (length (filter (\<lambda>x. itemName x = itemName ticket)
                     (inventory_of doc_ticket ''G1'' ''M1''))) \<ge> 0
   \<and> fst (shop_buy eco (KString ''ticket'') ''M1'' ''G1'' ''02.01.2024'' doc_ticket) = Inr Bought
   \<and> fetch eco ''M1'' ''G1'' doc_ticket = Inr 10
   \<and> fetch eco ''M1'' ''G1''
        (snd (shop_buy eco (KString ''ticket'') ''M1'' ''G1'' ''02.01.2024'' doc_ticket)) = Inr (- 40)
   \<and> length (inventory_of
        (snd (shop_buy eco (KString ''ticket'') ''M1'' ''G1'' ''02.01.2024'' doc_ticket))
        ''G1'' ''M1'') = 1"
  by (simp add: shop_buy_def shop_of_def doc_ticket_def ticket_def saver_def eco_def matches_def
      eq_number_def eq_string_def amount_reached_def ensure_guild_def assign_member_def
      balance_number_def member_of_def inventory_of_def history_of_def fetch_def money_of_def
      or_zero_def to_double_exact Let_def)

text \<open>
  Claim C5, amended: for every catalog item whose \<open>maxAmount\<close> is set to a value other
  than \<open>0\<close> and every member whose inventory already holds at least that many items
  of the item's name, \<open>buy\<close> returns the max-reached outcome and leaves the persisted
  document, and with it the member's balance, inventory and history, unchanged.
\<close>

theorem buy_at_cap_changes_nothing:
  assumes "ready e" and "find (matches e itemID) (shop_of doc g) = Some item"
    and "maxAmount item = Some cap" and "cap \<noteq> 0"
    and "int (length (filter (\<lambda>x. itemName x = itemName item) (inventory_of doc g m))) \<ge> cap"
  shows "shop_buy e itemID m g today doc = (Inr MaxReached, doc)"
  using assms by (simp add: shop_buy_def amount_reached_def Let_def)

theorem buy_at_cap_changes_nothing_witness:
  "ready eco \<and> find (matches eco (KString ''sword'')) (shop_of doc_owner ''G1'') = Some sword
   \<and> maxAmount sword = Some 1
   \<and> length (filter (\<lambda>x. itemName x = itemName sword) (inventory_of doc_owner ''G1'' ''M1'')) = 1
   \<and> shop_buy eco (KString ''sword'') ''M1'' ''G1'' ''03.01.2024'' doc_owner
        = (Inr MaxReached, doc_owner)"
proof -
  have r: "ready eco" by (simp add: eco_def)
  have f: "find (matches eco (KString ''sword'')) (shop_of doc_owner ''G1'') = Some sword"
    by (simp add: shop_of_def doc_owner_def matches_def eq_string_def sword_def)
  have c: "maxAmount sword = Some 1" by (simp add: sword_def)
  have n: "length (filter (\<lambda>x. itemName x = itemName sword)
             (inventory_of doc_owner ''G1'' ''M1'')) = 1"
    by (simp add: inventory_of_def member_of_def doc_owner_def owner_def held_sword_def sword_def)
  have z: "(1::int) \<noteq> 0" by simp
  have h: "int (length (filter (\<lambda>x. itemName x = itemName sword)
             (inventory_of doc_owner ''G1'' ''M1''))) \<ge> 1"
    using n by simp
  show ?thesis
    using r f c n buy_at_cap_changes_nothing [OF r f c z h, of "''03.01.2024''"] by simp
qed

section \<open>Shop engine: adding, buying, clearing\<close>

lemma find_snoc:
  "\<forall>x\<in>set xs. \<not> P x \<Longrightarrow> P y \<Longrightarrow> find P (xs @ [y]) = Some y"
  by (induction xs) auto

lemma shop_of_assigned:
  "\<exists>d. persist v doc (assign_shop (ensure_guild doc g) g s) = (Inr v, d) \<and> shop_of d g = s"
  by (simp add: persist_def assign_shop_def ensure_guild_def shop_of_def split: option.split)

lemma matches_own_id: "matches e (KNumber (id x)) x"
  by (simp add: matches_def eq_number_def)

lemma matches_own_name: "matches e (KString (itemName x)) x"
  by (simp add: matches_def eq_string_def)

text \<open>
  Claim C7, as stated: after \<open>addItem\<close>, \<open>searchItem\<close> by the returned id and by
  the name both return the record \<open>addItem\<close> returned, whatever the catalog held.  With
  a sword (id 1) in the catalog, adding a second item named sword returns the record with
  id 2, and the search by that name returns the first sword.  With a sword (id 1) and a
  bow (id 2) in the catalog and the sword removed, adding a shield returns the record with
  id 2, and the search by that id returns the bow.
\<close>

theorem shadowed_item_counterexample:
  "shop_of doc_shop ''G1'' = [sword]
   \<and> fst (shop_addItem eco ''G1'' second_sword ''03.01.2024'' doc_shop)
       = Inr \<lparr>id = 2, itemName = ''sword'', price = 70, role = None, maxAmount = None,
               date = ''03.01.2024'', message = ''You have used this item!'',
               description = ''Very mysterious item.''\<rparr>
   \<and> shop_searchItem eco (KString ''sword'') ''G1''
         (snd (shop_addItem eco ''G1'' second_sword ''03.01.2024'' doc_shop)) = Inr (Some sword)
   \<and> id sword = 1
   \<and> fst (shop_removeItem eco (KNumber 1) ''G1'' doc_armoury) = Inr True
   \<and> shop_of (snd (shop_removeItem eco (KNumber 1) ''G1'' doc_armoury)) ''G1'' = [bow]
   \<and> fst (shop_addItem eco ''G1'' shield ''03.01.2024''
              (snd (shop_removeItem eco (KNumber 1) ''G1'' doc_armoury)))
       = Inr \<lparr>id = 2, itemName = ''shield'', price = 30, role = None, maxAmount = Some 2,
               date = ''03.01.2024'', message = ''You have used this item!'',
               description = ''Very mysterious item.''\<rparr>
   \<and> shop_searchItem eco (KNumber 2) ''G1''
         (snd (shop_addItem eco ''G1'' shield ''03.01.2024''
                (snd (shop_removeItem eco (KNumber 1) ''G1'' doc_armoury)))) = Inr (Some bow)
   \<and> itemName bow = ''bow''"
  by (simp add: shop_addItem_def shop_searchItem_def shop_removeItem_def shop_of_def doc_shop_def
      doc_armoury_def sword_def bow_def second_sword_def shield_def eco_def next_id_def
      string_or_def role_or_null_def persist_def assign_shop_def ensure_guild_def matches_def
      eq_number_def eq_string_def Let_def)

text \<open>
  Claim C7, amended: for every prior catalog of the guild in which no item matches (by id
  or by name) the id the new item will get, nor the new item's name, \<open>addItem\<close>
  followed by \<open>searchItem\<close>, once with the returned item's id and once with its
  name, returns both times the record \<open>addItem\<close> returned.
\<close>

theorem added_item_is_found:
  assumes "ready e"
    and "\<forall>x\<in>set (shop_of doc g). \<not> matches e (KNumber (next_id (shop_of doc g))) x"
    and "\<forall>x\<in>set (shop_of doc g). \<not> matches e (KString (item_options.itemName opts)) x"
  shows "\<exists>item doc'. shop_addItem e g opts today doc = (Inr item, doc')
           \<and> shop_searchItem e (KNumber (id item)) g doc' = Inr (Some item)
           \<and> shop_searchItem e (KString (itemName item)) g doc' = Inr (Some item)"
proof -
  define item where "item =
     \<lparr>id = next_id (shop_of doc g),
      itemName = item_options.itemName opts,
      price = item_options.price opts,
      role = role_or_null (item_options.role opts),
      maxAmount = item_options.maxAmount opts,
      date = today,
      message = string_or (item_options.message opts) ''You have used this item!'',
      description = string_or (item_options.description opts) ''Very mysterious item.''\<rparr>"
  obtain doc' where d: "persist item doc (assign_shop (ensure_guild doc g) g (shop_of doc g @ [item]))
      = (Inr item, doc')" "shop_of doc' g = shop_of doc g @ [item]"
    using shop_of_assigned [of item doc g "shop_of doc g @ [item]"] by blast
  have a: "shop_addItem e g opts today doc = (Inr item, doc')"
    using assms(1) d(1) by (simp add: shop_addItem_def Let_def item_def)
  have i: "id item = next_id (shop_of doc g)" and n: "itemName item = item_options.itemName opts"
    by (simp_all add: item_def)
  have "find (matches e (KNumber (id item))) (shop_of doc g @ [item]) = Some item"
    using assms(2) i matches_own_id [of e item] by (intro find_snoc) simp_all
  moreover have "find (matches e (KString (itemName item))) (shop_of doc g @ [item]) = Some item"
    using assms(3) n matches_own_name [of e item] by (intro find_snoc) simp_all
  ultimately show ?thesis
    using a d(2) assms(1) by (simp add: shop_searchItem_def)
qed

theorem added_item_is_found_witness:
  "ready eco \<and> shop_of doc_shop ''G1'' = [sword] \<and> next_id [sword] = 2
   \<and> \<not> matches eco (KNumber 2) sword \<and> \<not> matches eco (KString ''shield'') sword
   \<and> (\<exists>item doc'. shop_addItem eco ''G1'' shield ''03.01.2024'' doc_shop = (Inr item, doc')
          \<and> shop_searchItem eco (KNumber (id item)) ''G1'' doc' = Inr (Some item)
          \<and> shop_searchItem eco (KString (itemName item)) ''G1'' doc' = Inr (Some item))"
proof -
  have r: "ready eco" by (simp add: eco_def)
  have s: "shop_of doc_shop ''G1'' = [sword]" by (simp add: shop_of_def doc_shop_def)
  have i: "next_id [sword] = 2" by (simp add: next_id_def)
  have n2: "\<not> matches eco (KNumber 2) sword"
    by (simp add: matches_def eq_number_def eq_string_def eco_def sword_def)
  have ns: "\<not> matches eco (KString ''shield'') sword"
    by (simp add: matches_def eq_number_def eq_string_def eco_def sword_def)
  have a: "\<forall>x\<in>set (shop_of doc_shop ''G1'').
             \<not> matches eco (KNumber (next_id (shop_of doc_shop ''G1''))) x"
    using s i n2 by simp
  have b: "\<forall>x\<in>set (shop_of doc_shop ''G1'').
             \<not> matches eco (KString (item_options.itemName shield)) x"
    using s ns by (simp add: shield_def)
  show ?thesis
    using r s i n2 ns added_item_is_found [OF r a b, of "''03.01.2024''"] by simp
qed

lemma found_guild: "find P (shop_of doc g) = Some x \<Longrightarrow> \<exists>gd. doc g = Some gd"
  by (cases "doc g") (simp_all add: shop_of_def)

lemma assign_member_present:
  "doc g = Some gd \<Longrightarrow> \<exists>d. assign_member doc g m r = Some d \<and> member_of d g m = Some r"
  by (simp add: assign_member_def member_of_def)

text \<open>
  For a member who has a record, a successful \<open>buy\<close> does debit exactly the price
  (a stored \<open>null\<close> balance counting as \<open>0\<close>, the result free to go negative
  and exact within \<open>2^53\<close> of zero),
  appends one inventory item numbered one more than the inventory's length, and appends
  one history item.
\<close>

lemma buy_debits_recorded_member:
  assumes "ready e" and "find (matches e itemID) (shop_of doc g) = Some item"
    and "\<not> amount_reached (maxAmount item)
           (length (filter (\<lambda>x. itemName x = itemName item) (inventory_of doc g m)))"
    and "member_of doc g m = Some rec"
    and "\<bar>money_of doc g m - price item\<bar> \<le> 9007199254740992"
  shows "\<exists>doc' bought entry.
           shop_buy e itemID m g today doc = (Inr Bought, doc')
         \<and> money_of doc' g m = money_of doc g m - price item
         \<and> inventory_of doc' g m = inventory_of doc g m @ [bought]
         \<and> id bought = int (length (inventory_of doc g m)) + 1
         \<and> history_of doc' g m = history_of doc g m @ [entry]"
proof -
  obtain gd where gd: "doc g = Some gd"
    using found_guild [of "matches e itemID" doc g item] assms(2) by blast
  then have eg: "ensure_guild doc g = doc"
    by (simp add: ensure_guild_def)
  have bal: "balance_number doc g m = Some (money_of doc g m)"
    using assms(4) by (simp add: balance_number_def money_of_def)
  define bought where "bought =
     \<lparr>id = next_id (inventory_of doc g m), itemName = itemName item, price = price item,
      role = role_or_null (role item), maxAmount = maxAmount item, date = today,
      message = message item\<rparr>"
  define entry where "entry =
     \<lparr>id = next_id (history_of doc g m), itemName = itemName item, price = price item,
      role = role_or_null (role item), maxAmount = maxAmount item, date = today,
      memberID = m, guildID = g\<rparr>"
  define r where "r =
     \<lparr>dailyCooldown = dailyCooldown_of doc g m,
      workCooldown = workCooldown_of doc g m,
      weeklyCooldown = weeklyCooldown_of doc g m,
      money = to_double (money_of doc g m - price item),
      bank = Some (bank_of doc g m),
      inventory = inventory_of doc g m @ [bought],
      history = history_of doc g m @ [entry]\<rparr>"
  obtain doc' where d: "assign_member doc g m r = Some doc'" "member_of doc' g m = Some r"
    using assign_member_present [of doc g gd m r] gd by blast
  have "shop_buy e itemID m g today doc = (Inr Bought, doc')"
    using assms(1,2,3) eg bal d(1)
    by (simp add: shop_buy_def Let_def r_def bought_def entry_def)
  moreover have "money_of doc' g m = money_of doc g m - price item"
    using d(2) assms(5) by (simp add: money_of_def r_def stored_exact)
  moreover have "inventory_of doc' g m = inventory_of doc g m @ [bought]"
    using d(2) by (simp add: inventory_of_def r_def)
  moreover have "id bought = int (length (inventory_of doc g m)) + 1"
    by (simp add: bought_def next_id_def)
  moreover have "history_of doc' g m = history_of doc g m @ [entry]"
    using d(2) by (simp add: history_of_def r_def)
  ultimately show ?thesis by blast
qed

text \<open>
  Claim C2: a successful \<open>buy\<close> debits exactly the price, an absent money field
  counting as \<open>0\<close>.  On a member without a record the code computes
  \<open>Number(undefined) - price\<close>: the purchase succeeds, the stored balance is
  \<open>null\<close> and reads back as \<open>0\<close>, where the claim has \<open>0 - 50\<close>.
\<close>

theorem buy_without_record_loses_debit:
  "member_of doc_shop ''G1'' ''M1'' = None
   \<and> find (matches eco (KNumber 1)) (shop_of doc_shop ''G1'') = Some sword
   \<and> price sword = 50
   \<and> fetch eco ''M1'' ''G1'' doc_shop = Inr 0
   \<and> fst (shop_buy eco (KNumber 1) ''M1'' ''G1'' ''02.01.2024'' doc_shop) = Inr Bought
   \<and> map_option money
        (member_of (snd (shop_buy eco (KNumber 1) ''M1'' ''G1'' ''02.01.2024'' doc_shop))
           ''G1'' ''M1'') = Some None
   \<and> fetch eco ''M1'' ''G1''
        (snd (shop_buy eco (KNumber 1) ''M1'' ''G1'' ''02.01.2024'' doc_shop)) = Inr 0"
  by (simp add: shop_buy_def shop_of_def doc_shop_def sword_def eco_def matches_def
      eq_number_def eq_string_def amount_reached_def ensure_guild_def assign_member_def
      balance_number_def member_of_def inventory_of_def history_of_def fetch_def money_of_def
      or_zero_def Let_def)

text \<open>
  The ledger operations and the three claims create the guild and the member on their
  write; \<open>clearInventory\<close> and \<open>clearHistory\<close> create the member only where the
  guild is already there.
\<close>

lemma ledger_creates_record:
  assumes "ready e"
  shows "(\<exists>d r. set_money e (Some a) m g doc = (Inr a, d) \<and> member_of d g m = Some r)
       \<and> (\<exists>d r. add e (Some a) m g doc = (Inr a, d) \<and> member_of d g m = Some r)
       \<and> (\<exists>d r. subtract e (Some a) m g doc = (Inr a, d) \<and> member_of d g m = Some r)
       \<and> (\<exists>d r. bankSet e (Some a) m g doc = (Inr a, d) \<and> member_of d g m = Some r)
       \<and> (\<exists>d r. bankAdd e (Some a) m g doc = (Inr a, d) \<and> member_of d g m = Some r)
       \<and> (\<exists>d r. bankSubtract e (Some a) m g doc = (Inr a, d) \<and> member_of d g m = Some r)"
proof -
  have p: "\<And>r. \<exists>d. persist a doc (assign_member (ensure_guild doc g) g m r) = (Inr a, d)
             \<and> (\<exists>r'. member_of d g m = Some r')"
    using persist_assigned [of a doc g m] by blast
  show ?thesis
    using assms by (simp add: set_money_def add_def subtract_def bankSet_def bankAdd_def
        bankSubtract_def p)
qed

lemma credit_creates_record:
  assumes "ready e"
  shows "\<exists>d r. credit e (Some a) m g (assign_member (ensure_guild doc g) g m r0) doc
                 = (Inr (Reward (Some a)), d) \<and> member_of d g m = Some r"
proof -
  obtain d1 where d1: "assign_member (ensure_guild doc g) g m r0 = Some d1"
    by (cases "doc g") (simp_all add: assign_member_def ensure_guild_def)
  obtain d2 r where d2: "add e (Some a) m g d1 = (Inr a, d2)" "member_of d2 g m = Some r"
    using ledger_creates_record [OF assms, of a m g d1] by blast
  show ?thesis
    using d1 d2 by (auto simp: credit_def)
qed

lemma first_claim_creates_record:
  assumes "ready e" and "member_of doc g m = None"
    and "work_reward (workAmount (options e)) x = Some a"
  shows "(\<exists>d r. daily e t1 t2 m g doc = (Inr (Reward (Some (dailyAmount (options e)))), d)
              \<and> member_of d g m = Some r)
       \<and> (\<exists>d r. weekly e t1 t2 m g doc = (Inr (Reward (Some (weeklyAmount (options e)))), d)
              \<and> member_of d g m = Some r)
       \<and> (\<exists>d r. work e t1 t2 x m g doc = (Inr (Reward (Some a)), d)
              \<and> member_of d g m = Some r)"
proof -
  have c: "\<And>v r0. \<exists>d. credit e (Some v) m g (assign_member (ensure_guild doc g) g m r0) doc
                 = (Inr (Reward (Some v)), d) \<and> (\<exists>r. member_of d g m = Some r)"
    using credit_creates_record [OF assms(1)] by blast
  show ?thesis
    using assms
    by (simp add: daily_def weekly_def work_def dailyCooldown_of_def workCooldown_of_def
        weeklyCooldown_of_def Let_def c)
qed

lemma clear_needs_the_guild:
  assumes "ready e"
  shows "doc g = None \<longrightarrow> shop_clearInventory e m g doc = (Inl TypeError, doc)
                        \<and> shop_clearHistory e m g doc = (Inl TypeError, doc)"
    and "doc g \<noteq> None \<longrightarrow> (\<exists>d r. shop_clearInventory e m g doc = (Inr True, d)
                                 \<and> member_of d g m = Some r \<and> inventory r = [])
                          \<and> (\<exists>d r. shop_clearHistory e m g doc = (Inr True, d)
                                 \<and> member_of d g m = Some r \<and> history r = [])"
  using assms
  by (auto simp: shop_clearInventory_def shop_clearHistory_def persist_def assign_member_def
      member_of_def)

text \<open>
  Claim C8: every mutating operation called for a guild or member the document does not
  hold creates the record on that write.  \<open>clearInventory\<close> and \<open>clearHistory\<close>
  on an empty document raise the \<open>TypeError\<close> instead, where \<open>set\<close> creates the
  guild and the member.
\<close>

theorem clear_in_absent_guild_raises:
  "shop_clearInventory eco ''M1'' ''G1'' Map.empty = (Inl TypeError, Map.empty)
   \<and> shop_clearHistory eco ''M1'' ''G1'' Map.empty = (Inl TypeError, Map.empty)
   \<and> fst (set_money eco (Some 5) ''M1'' ''G1'' Map.empty) = Inr 5
   \<and> fetch eco ''M1'' ''G1'' (snd (set_money eco (Some 5) ''M1'' ''G1'' Map.empty)) = Inr 5"
  by (simp add: shop_clearInventory_def shop_clearHistory_def set_money_def eco_def persist_def
      assign_member_def ensure_guild_def fetch_def money_of_def member_of_def or_zero_def)

section \<open>Drawing a reward from a range\<close>

lemma scaled_below:
  fixes r d :: real
  assumes "0 \<le> r" and "r < 1" and "0 < d"
  shows "0 \<le> r * d" and "r * d < d"
  using assms by simp_all

lemma work_reward_above_min:
  assumes "a < b" and "0 \<le> r" and "r < 1"
  shows "\<exists>k. work_reward (RArray [a, b]) r = Some k \<and> a < k \<and> k \<le> b"
proof -
  define d :: real where "d = of_int b - of_int a"
  have "0 < d" using assms(1) by (simp add: d_def)
  then have "0 \<le> r * d" and "r * d < d"
    using scaled_below [OF assms(2,3)] by simp_all
  moreover have v: "r * (of_int a - of_int b) + of_int b = of_int b - r * d"
    by (simp add: d_def algebra_simps)
  ultimately have "of_int a < r * (of_int a - of_int b) + of_int b"
    and "r * (of_int a - of_int b) + of_int b \<le> of_int b"
    by (simp_all add: d_def)
  then have "a < \<lceil>r * (of_int a - of_int b) + of_int b\<rceil>"
    and "\<lceil>r * (of_int a - of_int b) + of_int b\<rceil> \<le> b"
    by (simp_all only: less_ceiling_iff ceiling_le_iff)
  then show ?thesis by (simp add: work_reward_def)
qed

lemma draw_within:
  assumes "a \<le> b" and "0 \<le> r" and "r < 1"
  shows "\<exists>k. draw (RArray [a, b]) r = Some k \<and> a \<le> k \<and> k \<le> b"
proof -
  define d :: real where "d = of_int b - of_int a"
  have "0 \<le> d" using assms(1) by (simp add: d_def)
  then have "0 \<le> r * d" and "r * d \<le> d"
    using assms(2,3) by (simp_all add: mult_left_le_one_le)
  moreover have v: "r * (of_int a - of_int b) + of_int b = of_int b - r * d"
    by (simp add: d_def algebra_simps)
  ultimately have "of_int a \<le> r * (of_int a - of_int b) + of_int b"
    and "r * (of_int a - of_int b) + of_int b \<le> of_int b"
    by (simp_all add: d_def)
  then have "a \<le> \<lfloor>r * (of_int a - of_int b) + of_int b\<rfloor>"
    and "\<lfloor>r * (of_int a - of_int b) + of_int b\<rfloor> \<le> b"
    by (simp only: le_floor_iff, linarith)
  then show ?thesis by (simp add: draw_def)
qed

lemma draw_max_only_at_zero:
  assumes "a < b" and "0 < r" and "r < 1"
  shows "draw (RArray [a, b]) r \<noteq> Some b"
proof -
  define d :: real where "d = of_int b - of_int a"
  have "0 < d" using assms(1) by (simp add: d_def)
  then have "0 < r * d" using assms(2) by simp
  moreover have v: "r * (of_int a - of_int b) + of_int b = of_int b - r * d"
    by (simp add: d_def algebra_simps)
  ultimately have "r * (of_int a - of_int b) + of_int b < of_int b"
    by simp
  then have "\<lfloor>r * (of_int a - of_int b) + of_int b\<rfloor> < b"
    by (simp only: floor_less_iff)
  moreover have "draw (RArray [a, b]) r = Some \<lfloor>r * (of_int a - of_int b) + of_int b\<rfloor>"
    by (simp only: draw_def reward_spec.case list.case)
  ultimately show ?thesis
    by (simp only: option.inject)
qed

lemma draw_single: "draw (RArray [a]) r = Some a"
  by (simp add: draw_def)

text \<open>
  Claim C6: a \<open>[min, max]\<close> reward is drawn uniformly from the closed interval, every
  integer of it a possible outcome with equal probability.  With the default
  \<open>[10, 50]\<close>, \<open>work\<close> of the Economy class rounds up and never grants \<open>10\<close>; the
  RewardManager rounds down and grants \<open>50\<close> at no value of the random source but
  \<open>0\<close>.
\<close>

theorem range_draw_misses_an_end:
  "(\<nexists>r. 0 \<le> r \<and> r < 1 \<and> work_reward (RArray [10, 50]) r = Some 10)
   \<and> (\<nexists>r. 0 < r \<and> r < 1 \<and> draw (RArray [10, 50]) r = Some 50)
   \<and> draw (RArray [10, 50]) 0 = Some 50
   \<and> work_reward (RArray [10, 50]) 0 = Some 50"
proof -
  have "\<nexists>r. 0 \<le> r \<and> r < 1 \<and> work_reward (RArray [10, 50]) r = Some 10"
    using work_reward_above_min [of 10 50] by fastforce
  moreover have "\<nexists>r. 0 < r \<and> r < 1 \<and> draw (RArray [10, 50]) r = Some 50"
    using draw_max_only_at_zero [of 10 50] by fastforce
  moreover have "draw (RArray [10, 50]) 0 = Some 50" "work_reward (RArray [10, 50]) 0 = Some 50"
    by (simp_all add: draw_def work_reward_def)
  ultimately show ?thesis by blast
qed

end
